theory Spec2Isabelle
  imports Complex_Main "HOL-Library.Sublist" "HOL-Library.Word"
begin

section \<open>JavaScript values used by the pipeline\<close>

text \<open>
  A value that a JavaScript function throws. Every failure of the network wrappers is an
  \<open>Error\<close> object carrying a message; \<open>transcribeAudio\<close> can in addition throw the
  initial value \<open>null\<close> of its variable \<open>lastError\<close>.
  A function that may throw returns \<open>thrown + 'a\<close>; an external call that may reject
  returns \<open>string + 'a\<close>, the string being the message of the \<open>Error\<close>.
\<close>

datatype thrown = JsNull | Error string

type_synonym buffer = "8 word list"

text \<open>\<open>String.prototype.includes\<close>: the argument occurs as a contiguous substring.\<close>

fun str_includes :: "string \<Rightarrow> string \<Rightarrow> bool" where
  "str_includes [] sub = (sub = [])"
| "str_includes (c # cs) sub = (prefix sub (c # cs) \<or> str_includes cs sub)"

text \<open>Decimal rendering of a non-negative integer inside a template literal.\<close>

fun string_of_nat :: "nat \<Rightarrow> string" where
  "string_of_nat n =
     (if n < 10 then [''0123456789'' ! n]
      else string_of_nat (n div 10) @ [''0123456789'' ! (n mod 10)])"

declare string_of_nat.simps [simp del]

definition string_of_int :: "int \<Rightarrow> string" where
  "string_of_int n = (if n < 0 then ''-'' @ string_of_nat (nat (- n)) else string_of_nat (nat n))"

definition is_space :: "char \<Rightarrow> bool" where
  "is_space c = (c \<in> set [CHR '' '', CHR 0x09, CHR 0x0A, CHR 0x0B, CHR 0x0C, CHR 0x0D])"

definition trim :: "string \<Rightarrow> string" where
  "trim s = rev (dropWhile is_space (rev (dropWhile is_space s)))"

text \<open>\<open>s.split(c)\<close> for a one-character separator: never empty, one more piece than separators.\<close>

fun split :: "char \<Rightarrow> string \<Rightarrow> string list" where
  "split c [] = [[]]"
| "split c (x # xs) =
     (if x = c then [] # split c xs
      else (case split c xs of [] \<Rightarrow> [[x]] | p # ps \<Rightarrow> (x # p) # ps))"

text \<open>\<open>Math.round\<close> on a number: the nearest integer, halves rounded up.\<close>

definition Math_round :: "real \<Rightarrow> int" where
  "Math_round x = \<lfloor>x + 1 / 2\<rfloor>"

text \<open>
  \<open>a || b\<close> on numbers that may be \<open>undefined\<close> or \<open>null\<close> (both \<open>None\<close>): the
  left operand when it is truthy, that is present and not zero, else the right one.
\<close>

definition truthy_num :: "real option \<Rightarrow> bool" where
  "truthy_num d = (case d of None \<Rightarrow> False | Some x \<Rightarrow> x \<noteq> 0)"

definition or_num :: "real option \<Rightarrow> real option \<Rightarrow> real option" where
  "or_num a b = (if truthy_num a then a else b)"

text \<open>The same on strings: the empty string is falsy.\<close>

definition truthy_str :: "string option \<Rightarrow> bool" where
  "truthy_str s = (case s of None \<Rightarrow> False | Some x \<Rightarrow> x \<noteq> [])"

section \<open>Persistence store (services/storage.js)\<close>

text \<open>
  A row of table \<open>transcriptions\<close>. Column \<open>created_at\<close> defaults to the database
  clock; it is kept as epoch seconds.
\<close>

record row =
  id :: nat
  sender :: string
  sender_name :: string
  timestamp :: int
  transcription :: string
  language :: "string option"
  duration :: "real option"
  source :: string
  created_at :: int

text \<open>
  The in-memory database \<open>db\<close>: both tables, and the \<open>AUTOINCREMENT\<close> counter of
  table \<open>transcriptions\<close> (the largest id ever assigned, which a delete does not lower).
  Table \<open>settings\<close> has primary key \<open>key\<close>: an association list with distinct keys.
\<close>

record database =
  transcriptions :: "row list"
  settings :: "(string \<times> string) list"
  seq :: nat

text \<open>The argument object of \<open>saveTranscription\<close>.\<close>

record save_args =
  a_sender :: string
  a_senderName :: string
  a_timestamp :: int
  a_transcription :: string
  a_language :: "string option"
  a_duration :: "real option"
  a_source :: string

section \<open>Messages and the outside world\<close>

text \<open>
  The texts sent to WhatsApp users are fixed Hungarian sentences or templates filled with
  the transcription; they are kept by kind and by their parameters, not rendered.
\<close>

datatype wa_text =
    DownloadFailedNotice
  | TooLargeNotice
  | HelpText
  | ReplyText string string int
  | ForwardText string string string string

text \<open>The multipart form that \<open>transcribeAudio\<close> posts to the transcription API.\<close>

record request =
  form_file :: buffer
  form_file_type :: string
  form_filename :: string
  form_model :: string
  form_response_format :: string
  form_language :: "string option"

text \<open>
  What the program does to the outside world, in order. Of the console output only the
  error line of the queue's \<open>catch\<close> is kept, with the sender name, the sender phone
  and the message of the error.
\<close>

datatype event =
    Download string
  | Sleep nat
  | WhisperFetch request
  | SendMessage string wa_text
  | SendTemplate string string "string list"
  | WriteFile database
  | Emit row
  | LogError string string string

text \<open>
  The state every function threads through: the events so far, the in-memory database and
  the content of the database file (\<open>None\<close> while the file does not exist).
\<close>

record world =
  trace :: "event list"
  db :: database
  disk :: "database option"

text \<open>The body of a successful answer of the transcription API, parsed.\<close>

datatype segment = Segment string

record whisper_json =
  j_text :: string
  j_language :: "string option"
  j_duration :: "real option"
  j_segments :: "segment list option"

text \<open>
  An HTTP response: its status, and what \<open>response.text()\<close> and \<open>response.json()\<close>
  give, each of which may reject.
\<close>

record response =
  status :: nat
  text_body :: "string + string"
  json_body :: "string + whisper_json"

definition ok :: "response \<Rightarrow> bool" where
  "ok r = (200 \<le> status r \<and> status r \<le> 299)"

text \<open>
  The outside world. An answer may depend on everything that happened before the call
  (the trace), so a call that fails once may succeed when repeated.
  The three WhatsApp functions of services/whatsapp.js are network wrappers that return
  or throw an \<open>Error\<close>; they are taken by their outcome.
\<close>

record env =
  fetch_whisper :: "event list \<Rightarrow> request \<Rightarrow> string + response"
  downloadWhatsAppMedia :: "event list \<Rightarrow> string \<Rightarrow> string + buffer"
  sendWhatsAppMessage :: "event list \<Rightarrow> string \<Rightarrow> wa_text \<Rightarrow> string + unit"
  sendWhatsAppTemplate :: "event list \<Rightarrow> string \<Rightarrow> string \<Rightarrow> string list \<Rightarrow> string + unit"
  Date_now :: "event list \<Rightarrow> int"
  FORWARD_TO_NUMBERS :: "string option"

definition emit :: "event \<Rightarrow> world \<Rightarrow> world" where
  "emit e w = w\<lparr>trace := trace w @ [e]\<rparr>"


section \<open>Persistence store: the operations\<close>

text \<open>
  \<open>persist\<close>: export the whole database and overwrite the database file with it.
  The file system is taken as reliable: \<open>writeFileSync\<close> returns.
\<close>

definition persist :: "world \<Rightarrow> world" where
  "persist w = emit (WriteFile (db w)) (w\<lparr>disk := Some (db w)\<rparr>)"

definition getTranscription :: "nat \<Rightarrow> world \<Rightarrow> row option" where
  "getTranscription i w = find (\<lambda>r. id r = i) (transcriptions (db w))"

text \<open>
  \<open>saveTranscription\<close>: insert, persist, read the new row back and emit it to the
  listeners of event \<open>new\<close>. \<open>new_row\<close> is the row that the \<open>INSERT\<close> adds; its id
  is one more than the largest id ever used.
\<close>

definition new_row :: "env \<Rightarrow> save_args \<Rightarrow> world \<Rightarrow> row" where
  "new_row e a w =
     \<lparr>id = Suc (fold max (map id (transcriptions (db w))) (seq (db w))),
      sender = a_sender a, sender_name = a_senderName a,
      timestamp = a_timestamp a, transcription = a_transcription a,
      language = a_language a, duration = a_duration a, source = a_source a,
      created_at = Date_now e (trace w) div 1000\<rparr>"

definition saveTranscription :: "env \<Rightarrow> save_args \<Rightarrow> world \<Rightarrow> nat \<times> world" where
  "saveTranscription e a w =
     (let d = db w;
          r = new_row e a w;
          w1 = w\<lparr>db := d\<lparr>transcriptions := transcriptions d @ [r], seq := id r\<rparr>\<rparr>;
          w2 = persist w1
      in (id r,
          (case getTranscription (id r) w2 of
             None \<Rightarrow> w2
           | Some record \<Rightarrow> emit (Emit record) w2)))"




definition getSetting :: "string \<Rightarrow> world \<Rightarrow> string option" where
  "getSetting k w = map_of (settings (db w)) k"

definition getAllSettings :: "world \<Rightarrow> (string \<times> string) list" where
  "getAllSettings w = settings (db w)"




section \<open>Settings route (PATCH /api/settings)\<close>



section \<open>Transcription client (services/whisper.js)\<close>

definition MIME_EXT_MAP :: "(string \<times> string) list" where
  "MIME_EXT_MAP =
     [(''audio/ogg'', ''ogg''), (''audio/mpeg'', ''mp3''), (''audio/mp4'', ''m4a''),
      (''audio/mp4a-latm'', ''m4a''), (''audio/wav'', ''wav''), (''audio/x-wav'', ''wav''),
      (''audio/webm'', ''webm''), (''audio/aac'', ''aac''), (''audio/flac'', ''flac''),
      (''audio/x-m4a'', ''m4a'')]"

definition MAX_FILE_SIZE :: nat where
  "MAX_FILE_SIZE = 25 * 1024 * 1024"

text \<open>The object \<open>transcribeAudio\<close> returns.\<close>

record transcription_result =
  t_text :: string
  t_language :: string
  t_duration :: "real option"
  t_segments :: "segment list"

text \<open>The options object; \<open>maxRetries\<close> left \<open>undefined\<close> (\<open>None\<close>) defaults to 3.\<close>

record options =
  maxRetries :: "int option"
  opt_language :: "string option"

text \<open>
  The body of the \<open>try\<close> block after \<open>fetch\<close> has settled: what the attempt
  returns, or the message of the \<open>Error\<close> it throws (\<open>Inl\<close>).
\<close>

definition attempt_result :: "string + response \<Rightarrow> string + transcription_result" where
  "attempt_result fetched =
     (case fetched of
        Inl m \<Rightarrow> Inl m
      | Inr r \<Rightarrow>
          if \<not> ok r then
            (case text_body r of
               Inl m \<Rightarrow> Inl m
             | Inr errorBody \<Rightarrow>
                 if status r < 500 \<and> status r \<noteq> 429
                 then Inl (''Whisper API error '' @ string_of_nat (status r) @ '': '' @ errorBody)
                 else Inl (''Whisper API '' @ string_of_nat (status r) @ '': '' @ errorBody))
          else
            (case json_body r of
               Inl m \<Rightarrow> Inl m
             | Inr result \<Rightarrow>
                 Inr \<lparr>t_text = j_text result,
                      t_language = (case j_language result of
                                      None \<Rightarrow> ''unknown''
                                    | Some l \<Rightarrow> if l \<noteq> [] then l else ''unknown''),
                      t_duration = or_num (j_duration result) None,
                      t_segments = (case j_segments result of None \<Rightarrow> [] | Some ss \<Rightarrow> ss)\<rparr>))"

text \<open>One pass through the \<open>try\<close> block: the call of the API and its result.\<close>

definition try_attempt :: "env \<Rightarrow> request \<Rightarrow> world \<Rightarrow> (string + transcription_result) \<times> world" where
  "try_attempt e req w =
     (attempt_result (fetch_whisper e (trace w) req), emit (WhisperFetch req) w)"

definition isRetryable :: "string \<Rightarrow> bool" where
  "isRetryable m =
     (str_includes m ''429'' \<or> str_includes m ''500'' \<or> str_includes m ''502'' \<or>
      str_includes m ''503'' \<or> str_includes m ''fetch'')"

text \<open>
  The \<open>for\<close> loop, entered at \<open>attempt\<close> with the current \<open>lastError\<close>. A failed
  attempt that is retryable and not the last one sleeps \<open>2 ^ attempt\<close> seconds and goes
  on; any other failed attempt breaks out of the loop, after which \<open>lastError\<close> is thrown.
\<close>

function attempts ::
  "env \<Rightarrow> request \<Rightarrow> int \<Rightarrow> int \<Rightarrow> thrown \<Rightarrow> world \<Rightarrow> (thrown + transcription_result) \<times> world" where
  "attempts e req maxR attempt lastError w =
     (if attempt \<le> maxR then
        (case try_attempt e req w of
           (Inr t, w1) \<Rightarrow> (Inr t, w1)
         | (Inl m, w1) \<Rightarrow>
             if attempt < maxR \<and> isRetryable m
             then attempts e req maxR (attempt + 1) (Error m)
                    (emit (Sleep (2 ^ nat attempt * 1000)) w1)
             else (Inl (Error m), w1))
      else (Inl lastError, w))"
  by pat_completeness auto
termination
  by (relation "measure (\<lambda>(e, req, maxR, attempt, lastError, w). nat (maxR + 1 - attempt))") auto

declare attempts.simps [simp del]

definition size_error :: "nat \<Rightarrow> string" where
  "size_error len =
     ''Fi'' @ [CHR 0xC8, CHR 0x99] @ ''ierul audio este prea mare ('' @
     string_of_nat ((2 * len + 1024 * 1024) div (2 * 1024 * 1024)) @ ''MB). Maximum: 25MB.''"

text \<open>The form data of a call: extension from the mime type, language unless \<open>auto\<close>.\<close>

definition whisper_request :: "buffer \<Rightarrow> string \<Rightarrow> options \<Rightarrow> request" where
  "whisper_request audioBuffer mimeType opts =
     (let baseMime = trim (case split CHR '';'' mimeType of [] \<Rightarrow> [] | p # ps \<Rightarrow> p);
          ext = (case map_of MIME_EXT_MAP baseMime of None \<Rightarrow> ''ogg'' | Some x \<Rightarrow> x);
          lang = opt_language opts
      in \<lparr>form_file = audioBuffer, form_file_type = baseMime,
          form_filename = ''audio.'' @ ext, form_model = ''whisper-1'',
          form_response_format = ''verbose_json'',
          form_language = (if truthy_str lang \<and> lang \<noteq> Some ''auto'' then lang else None)\<rparr>)"

definition transcribeAudio ::
  "env \<Rightarrow> buffer \<Rightarrow> string \<Rightarrow> options \<Rightarrow> world \<Rightarrow> (thrown + transcription_result) \<times> world" where
  "transcribeAudio e audioBuffer mimeType opts w =
     (if length audioBuffer > MAX_FILE_SIZE
      then (Inl (Error (size_error (length audioBuffer))), w)
      else attempts e (whisper_request audioBuffer mimeType opts)
             (case maxRetries opts of None \<Rightarrow> 3 | Some n \<Rightarrow> n) 1 JsNull w)"

section \<open>Webhook handlers (routes/webhook.js)\<close>

text \<open>
  The message object of a webhook request: \<open>type\<close>, \<open>from\<close>, and the payloads
  \<open>audio\<close> and \<open>text.body\<close>, each of which may be missing.
\<close>

record audio =
  audio_id :: string
  mime_type :: "string option"
  audio_duration :: "real option"

record message =
  m_type :: string
  m_from :: string
  m_audio :: "audio option"
  m_text_body :: "string option"

text \<open>Reading a property of \<open>undefined\<close> throws a \<open>TypeError\<close>, with this message.\<close>

definition TypeError_undefined :: string where
  "TypeError_undefined = ''Cannot read properties of undefined''"

text \<open>A send, as an awaited call: the event, and whether the call returned or threw.\<close>

definition send_message :: "env \<Rightarrow> string \<Rightarrow> wa_text \<Rightarrow> world \<Rightarrow> (string + unit) \<times> world" where
  "send_message e to txt w = (sendWhatsAppMessage e (trace w) to txt, emit (SendMessage to txt) w)"

definition send_template ::
  "env \<Rightarrow> string \<Rightarrow> string \<Rightarrow> string list \<Rightarrow> world \<Rightarrow> (string + unit) \<times> world" where
  "send_template e to name params w =
     (sendWhatsAppTemplate e (trace w) to name params, emit (SendTemplate to name params) w)"

text \<open>
  Step 1 of \<open>handleAudioMessage\<close>: download, on failure wait 2000 ms and download once
  more, on a second failure send the notice (a failure of that send is dropped by
  \<open>.catch(() => { })\<close>) and give up: \<open>None\<close> is the early \<open>return\<close>.
\<close>

definition download_step :: "env \<Rightarrow> string \<Rightarrow> string \<Rightarrow> world \<Rightarrow> buffer option \<times> world" where
  "download_step e audioId senderPhone w =
     (case downloadWhatsAppMedia e (trace w) audioId of
        Inr audioBuffer \<Rightarrow> (Some audioBuffer, emit (Download audioId) w)
      | Inl downloadErr \<Rightarrow>
          let w1 = emit (Sleep 2000) (emit (Download audioId) w) in
          (case downloadWhatsAppMedia e (trace w1) audioId of
             Inr audioBuffer \<Rightarrow> (Some audioBuffer, emit (Download audioId) w1)
           | Inl retryErr \<Rightarrow>
               (None, snd (send_message e senderPhone DownloadFailedNotice
                             (emit (Download audioId) w1)))))"

text \<open>
  Step 5: every configured number but the sender gets the template; when the template
  fails the plain text is tried, and a failure of that is logged and dropped.
\<close>

fun forward_all ::
  "env \<Rightarrow> string list \<Rightarrow> string \<Rightarrow> string list \<Rightarrow> wa_text \<Rightarrow> world \<Rightarrow> world" where
  "forward_all e [] senderPhone params forwardText w = w"
| "forward_all e (number # numbers) senderPhone params forwardText w =
     (if number \<noteq> senderPhone then
        (case send_template e number ''voice_transcription_forward'' params w of
           (Inr u, w1) \<Rightarrow> forward_all e numbers senderPhone params forwardText w1
         | (Inl templateErr, w1) \<Rightarrow>
             forward_all e numbers senderPhone params forwardText
               (snd (send_message e number forwardText w1)))
      else forward_all e numbers senderPhone params forwardText w)"

definition forward_step ::
  "env \<Rightarrow> transcription_result \<Rightarrow> string \<Rightarrow> string \<Rightarrow> world \<Rightarrow> world" where
  "forward_step e t senderPhone senderName w =
     (if truthy_str (FORWARD_TO_NUMBERS e) then
        let numbers = filter (\<lambda>n. n \<noteq> [])
              (map trim (split CHR '','' (case FORWARD_TO_NUMBERS e of None \<Rightarrow> [] | Some s \<Rightarrow> s)));
            durationStr =
              string_of_int (Math_round (case t_duration t of None \<Rightarrow> 0 | Some d \<Rightarrow> d)) @
              ''s | '' @ t_language t
        in forward_all e numbers senderPhone
             [senderName @ '' ('' @ senderPhone @ '')'', durationStr, t_text t]
             (ForwardText senderName senderPhone durationStr (t_text t)) w
      else w)"

text \<open>
  The mime type declared by the message, \<open>audio/ogg\<close> when it declares none, and the
  options passed to \<open>transcribeAudio\<close>: the default language unless it is \<open>auto\<close>,
  and no \<open>maxRetries\<close>.
\<close>

definition mime_of :: "audio \<Rightarrow> string" where
  "mime_of a = (case mime_type a of
                  None \<Rightarrow> ''audio/ogg''
                | Some mt \<Rightarrow> if mt \<noteq> [] then mt else ''audio/ogg'')"

definition transcribe_options :: "world \<Rightarrow> options" where
  "transcribe_options w =
     (let defaultLang = getSetting ''default_language'' w
      in \<lparr>maxRetries = None,
          opt_language = (if defaultLang \<noteq> Some ''auto'' then defaultLang else None)\<rparr>)"

text \<open>The object passed to \<open>saveTranscription\<close> in step 3.\<close>

definition whatsapp_record ::
  "audio \<Rightarrow> transcription_result \<Rightarrow> string \<Rightarrow> string \<Rightarrow> int \<Rightarrow> save_args" where
  "whatsapp_record a t senderPhone senderName ts =
     \<lparr>a_sender = senderPhone, a_senderName = senderName,
      a_timestamp = ts div 1000, a_transcription = t_text t,
      a_language = Some (t_language t),
      a_duration = or_num (or_num (t_duration t) (audio_duration a)) None,
      a_source = ''whatsapp''\<rparr>"

text \<open>
  Steps 2 to 5, once the audio is downloaded: size check, transcription (whose failure
  propagates), save, reply when \<open>auto_reply\<close> is \<open>true\<close> (a failed reply propagates),
  forward.
\<close>

definition after_download ::
  "env \<Rightarrow> audio \<Rightarrow> buffer \<Rightarrow> string \<Rightarrow> string \<Rightarrow> int \<Rightarrow> world \<Rightarrow> (thrown + unit) \<times> world" where
  "after_download e a audioBuffer senderPhone senderName ts w =
     (if length audioBuffer > 25 * 1024 * 1024
      then (Inr (), snd (send_message e senderPhone TooLargeNotice w))
      else
        case transcribeAudio e audioBuffer (mime_of a) (transcribe_options w) w of
          (Inl err, w1) \<Rightarrow> (Inl err, w1)
        | (Inr t, w1) \<Rightarrow>
            let w2 = snd (saveTranscription e
                            (whatsapp_record a t senderPhone senderName ts) w1)
            in if getSetting ''auto_reply'' w2 = Some ''true'' then
                 (case send_message e senderPhone
                         (ReplyText (t_text t) (t_language t)
                            (Math_round (case t_duration t of None \<Rightarrow> 0 | Some d \<Rightarrow> d))) w2 of
                    (Inl m, w3) \<Rightarrow> (Inl (Error m), w3)
                  | (Inr u, w3) \<Rightarrow> (Inr (), forward_step e t senderPhone senderName w3))
               else (Inr (), forward_step e t senderPhone senderName w2))"

definition handleAudioMessage ::
  "env \<Rightarrow> message \<Rightarrow> string \<Rightarrow> string \<Rightarrow> int \<Rightarrow> world \<Rightarrow> (thrown + unit) \<times> world" where
  "handleAudioMessage e msg senderPhone senderName ts w =
     (case m_audio msg of
        None \<Rightarrow> (Inl (Error TypeError_undefined), w)
      | Some a \<Rightarrow>
          (case download_step e (audio_id a) senderPhone w of
             (None, w1) \<Rightarrow> (Inr (), w1)
           | (Some audioBuffer, w1) \<Rightarrow>
               after_download e a audioBuffer senderPhone senderName ts w1))"

text \<open>
  \<open>toLowerCase\<close> on the letters A to Z; the Hungarian keyword is given by its UTF-8 bytes.
\<close>

definition toLowerCase :: "string \<Rightarrow> string" where
  "toLowerCase s =
     map (\<lambda>c. if 65 \<le> (of_char c :: nat) \<and> (of_char c :: nat) \<le> 90
              then char_of ((of_char c :: nat) + 32) else c) s"

definition segitseg :: string where
  "segitseg = ''seg'' @ [CHR 0xC3, CHR 0xAD] @ ''ts'' @ [CHR 0xC3, CHR 0xA9] @ ''g''"

definition handleTextMessage ::
  "env \<Rightarrow> message \<Rightarrow> string \<Rightarrow> world \<Rightarrow> (thrown + unit) \<times> world" where
  "handleTextMessage e msg senderPhone w =
     (case m_text_body msg of
        None \<Rightarrow> (Inl (Error TypeError_undefined), w)
      | Some b \<Rightarrow>
          let body = trim (toLowerCase b) in
          if body = ''help'' \<or> body = segitseg then
            (case send_message e senderPhone HelpText w of
               (Inl m, w1) \<Rightarrow> (Inl (Error m), w1)
             | (Inr u, w1) \<Rightarrow> (Inr (), w1))
          else (Inr (), w))"

section \<open>The sequential queue (routes/webhook.js)\<close>

record queue_item =
  q_message :: message
  senderPhone :: string
  senderName :: string

text \<open>The \<open>try\<close> block of the loop: dispatch on the type of the message.\<close>

definition dispatch :: "env \<Rightarrow> queue_item \<Rightarrow> int \<Rightarrow> world \<Rightarrow> (thrown + unit) \<times> world" where
  "dispatch e it ts w =
     (if m_type (q_message it) = ''audio''
      then handleAudioMessage e (q_message it) (senderPhone it) (senderName it) ts w
      else if m_type (q_message it) = ''text''
      then handleTextMessage e (q_message it) (senderPhone it) w
      else (Inr (), w))"

text \<open>
  The body of the \<open>while\<close> loop for one item: the \<open>try\<close> block and the \<open>catch\<close>,
  which logs the message of the error with the sender. The result is \<open>None\<close> when the
  loop goes on. Reading \<open>error.message\<close> of a thrown \<open>null\<close> would itself throw
  inside the \<open>catch\<close> and leave \<open>processQueue\<close>: \<open>Some\<close>.
\<close>

definition process_item :: "env \<Rightarrow> queue_item \<Rightarrow> int \<Rightarrow> world \<Rightarrow> thrown option \<times> world" where
  "process_item e it ts w =
     (case dispatch e it ts w of
        (Inr u, w1) \<Rightarrow> (None, w1)
      | (Inl (Error m), w1) \<Rightarrow> (None, emit (LogError (senderName it) (senderPhone it) m) w1)
      | (Inl JsNull, w1) \<Rightarrow> (Some (Error TypeError_undefined), w1))"

text \<open>
  The server: the two module variables \<open>messageQueue\<close> and \<open>processing\<close>, and what
  the scheduler of the runtime holds: for every call of \<open>processQueue\<close> that is suspended
  at its \<open>await\<close>, the item it took off the queue and the timestamp it read
  (\<open>in_flight\<close>). \<open>completed\<close> lists the items whose processing has ended, in order.
\<close>

record server =
  messageQueue :: "queue_item list"
  processing :: bool
  in_flight :: "(queue_item \<times> int) list"
  completed :: "queue_item list"
  sys :: world

text \<open>
  The test of the \<open>while\<close> loop, for the call at position \<open>i\<close> of \<open>in_flight\<close>
  (a new call takes the position after the last): with the queue empty the loop ends,
  \<open>processing\<close> is reset and the call returns; otherwise the head is shifted off the
  queue and the call waits for its handler.
\<close>

definition loop_test :: "env \<Rightarrow> nat \<Rightarrow> server \<Rightarrow> server" where
  "loop_test e i s =
     (case messageQueue s of
        [] \<Rightarrow> s\<lparr>processing := False,
                in_flight := take i (in_flight s) @ drop (Suc i) (in_flight s)\<rparr>
      | it # rest \<Rightarrow>
          s\<lparr>messageQueue := rest,
            in_flight := take i (in_flight s) @ [(it, Date_now e (trace (sys s)))] @
                         drop (Suc i) (in_flight s)\<rparr>)"

definition processQueue :: "env \<Rightarrow> server \<Rightarrow> server" where
  "processQueue e s =
     (if processing s \<or> length (messageQueue s) = 0 then s
      else loop_test e (length (in_flight s)) (s\<lparr>processing := True\<rparr>))"

text \<open>
  POST /webhook with a message in its body (the signature check and the acknowledgement
  come before): the item is built from the message and the contact name, with
  \<open>Ismeretlen\<close> for a missing name, pushed, and \<open>processQueue\<close> is called.
\<close>

definition new_item :: "message \<Rightarrow> string option \<Rightarrow> queue_item" where
  "new_item msg contactName =
     \<lparr>q_message = msg, senderPhone = m_from msg,
      senderName = (case contactName of
                      None \<Rightarrow> ''Ismeretlen''
                    | Some n \<Rightarrow> if n \<noteq> [] then n else ''Ismeretlen'')\<rparr>"

definition post_webhook :: "env \<Rightarrow> message \<Rightarrow> string option \<Rightarrow> server \<Rightarrow> server" where
  "post_webhook e msg contactName s =
     processQueue e (s\<lparr>messageQueue := messageQueue s @ [new_item msg contactName]\<rparr>)"

text \<open>
  The handler of the item held by call \<open>i\<close> ends: its effects and the \<open>catch\<close> are
  those of \<open>process_item\<close>, then the call goes back to the test of its loop. An
  exception that leaves the \<open>catch\<close> ends the call without resetting \<open>processing\<close>.
\<close>

definition settle :: "env \<Rightarrow> nat \<Rightarrow> server \<Rightarrow> server" where
  "settle e i s =
     (if i < length (in_flight s) then
        (case in_flight s ! i of
           (it, ts) \<Rightarrow>
             (case process_item e it ts (sys s) of
                (None, w1) \<Rightarrow> loop_test e i (s\<lparr>sys := w1, completed := completed s @ [it]\<rparr>)
              | (Some err, w1) \<Rightarrow>
                  s\<lparr>sys := w1, completed := completed s @ [it],
                    in_flight := take i (in_flight s) @ drop (Suc i) (in_flight s)\<rparr>))
      else s)"

text \<open>
  What the runtime can do next: deliver a webhook request, or resume a suspended call
  whose handler has ended. Any interleaving of the two is a run.
\<close>

datatype step = Arrive message "string option" | Settle nat

fun do_step :: "env \<Rightarrow> server \<Rightarrow> step \<Rightarrow> server" where
  "do_step e s (Arrive msg contactName) = post_webhook e msg contactName s"
| "do_step e s (Settle i) = settle e i s"

definition run :: "env \<Rightarrow> step list \<Rightarrow> server \<Rightarrow> server" where
  "run e steps s = foldl (do_step e) s steps"

definition init_server :: "world \<Rightarrow> server" where
  "init_server w = \<lparr>messageQueue = [], processing = False, in_flight = [], completed = [], sys = w\<rparr>"

text \<open>The items enqueued by a run, in the order of their requests.\<close>

fun enqueued :: "step list \<Rightarrow> queue_item list" where
  "enqueued [] = []"
| "enqueued (Arrive msg contactName # steps) = new_item msg contactName # enqueued steps"
| "enqueued (Settle i # steps) = enqueued steps"


text \<open>
  The invariant of the queue: at most one call of \<open>processQueue\<close> is suspended,
  \<open>processing\<close> is set exactly while one is, and the queue is empty whenever none is.
  The history of a server lists its items from the oldest: done, in flight, waiting.
\<close>

definition queue_inv :: "server \<Rightarrow> bool" where
  "queue_inv s =
     (length (in_flight s) \<le> 1 \<and> (processing s = (in_flight s \<noteq> [])) \<and>
      (processing s \<or> messageQueue s = []))"

definition history :: "server \<Rightarrow> queue_item list" where
  "history s = completed s @ map fst (in_flight s) @ messageQueue s"

section \<open>Concrete inputs\<close>

text \<open>
  A store as \<open>initDatabase\<close> leaves it on first start, apart from the file, and an
  outside world in which the network is down for the transcription API but every WhatsApp
  call succeeds; the other environments change one answer of it.
\<close>

definition w0 :: world where
  "w0 = \<lparr>trace = [],
          db = \<lparr>transcriptions = [],
                settings = [(''auto_reply'', ''true''), (''default_language'', ''auto'')],
                seq = 0\<rparr>,
          disk = None\<rparr>"

definition quiet_env :: env where
  "quiet_env =
     \<lparr>fetch_whisper = (\<lambda>h r. Inl ''fetch failed''),
      downloadWhatsAppMedia = (\<lambda>h i. Inr []),
      sendWhatsAppMessage = (\<lambda>h to t. Inr ()),
      sendWhatsAppTemplate = (\<lambda>h to n ps. Inr ()),
      Date_now = (\<lambda>h. 1700000000000),
      FORWARD_TO_NUMBERS = None\<rparr>"

text \<open>The API answers every call with the given status and body.\<close>

definition env_status :: "nat \<Rightarrow> string \<Rightarrow> env" where
  "env_status st body =
     quiet_env\<lparr>fetch_whisper :=
       (\<lambda>h r. Inr \<lparr>status = st, text_body = Inr body, json_body = Inl ''Unexpected token''\<rparr>)\<rparr>"

definition default_options :: options where
  "default_options = \<lparr>maxRetries = None, opt_language = None\<rparr>"

definition ogg_request :: request where
  "ogg_request =
     \<lparr>form_file = [], form_file_type = ''audio/ogg'', form_filename = ''audio.ogg'',
      form_model = ''whisper-1'', form_response_format = ''verbose_json'',
      form_language = None\<rparr>"

text \<open>The API answers every call with status 200 and the given parsed body.\<close>

definition env_transcribed :: "whisper_json \<Rightarrow> env" where
  "env_transcribed j =
     quiet_env\<lparr>fetch_whisper :=
       (\<lambda>h r. Inr \<lparr>status = 200, text_body = Inr ''{}'', json_body = Inr j\<rparr>)\<rparr>"

definition hello_json :: whisper_json where
  "hello_json = \<lparr>j_text = ''hello'', j_language = Some ''en'', j_duration = None,
                 j_segments = None\<rparr>"

text \<open>
  The first download of a run fails and every later one returns the given buffer. In
  \<open>no_download\<close> every download fails, and so does every send of a message.
\<close>

fun is_download :: "event \<Rightarrow> bool" where
  "is_download (Download i) = True"
| "is_download ev = False"

definition flaky_download :: "buffer \<Rightarrow> env \<Rightarrow> env" where
  "flaky_download buf e =
     e\<lparr>downloadWhatsAppMedia :=
         (\<lambda>h i. if list_ex is_download h then Inr buf
                else Inl ''Failed to get media URL: 500'')\<rparr>"

definition no_download :: "env \<Rightarrow> env" where
  "no_download e =
     e\<lparr>downloadWhatsAppMedia := (\<lambda>h i. Inl ''Failed to get media URL: 404''),
       sendWhatsAppMessage := (\<lambda>h to t. Inl ''Failed to send WhatsApp message: 400'')\<rparr>"

definition voice_note :: "real option \<Rightarrow> message" where
  "voice_note d =
     \<lparr>m_type = ''audio'', m_from = ''40700000001'',
      m_audio = Some \<lparr>audio_id = ''media-1'', mime_type = Some ''audio/ogg'',
                      audio_duration = d\<rparr>,
      m_text_body = None\<rparr>"

text \<open>Every download returns a buffer of 25 MiB and one byte.\<close>

definition big_download :: "env \<Rightarrow> env" where
  "big_download e =
     e\<lparr>downloadWhatsAppMedia := (\<lambda>h i. Inr (replicate (25 * 1024 * 1024 + 1) 0))\<rparr>"

definition the_audio :: "real option \<Rightarrow> audio" where
  "the_audio d = \<lparr>audio_id = ''media-1'', mime_type = Some ''audio/ogg'', audio_duration = d\<rparr>"

definition hello_result :: transcription_result where
  "hello_result = \<lparr>t_text = ''hello'', t_language = ''en'', t_duration = None, t_segments = []\<rparr>"

text \<open>The row saved for a voice note of sender Ana, transcribed as \<open>hello\<close>.\<close>

definition hello_row :: "real option \<Rightarrow> row" where
  "hello_row d =
     \<lparr>id = 1, sender = ''40700000001'', sender_name = ''Ana'', timestamp = 1700000000,
      transcription = ''hello'', language = Some ''en'', duration = d, source = ''whatsapp'',
      created_at = 1700000000\<rparr>"

text \<open>A message of a type the queue ignores, and two queue items.\<close>

definition sticker :: message where
  "sticker = \<lparr>m_type = ''sticker'', m_from = ''40700000002'', m_audio = None, m_text_body = None\<rparr>"


definition sticker_item :: queue_item where
  "sticker_item = \<lparr>q_message = sticker, senderPhone = ''40700000002'', senderName = ''Ismeretlen''\<rparr>"



text \<open>The notices that tell a user that an audio could not be handled.\<close>

fun is_notice :: "event \<Rightarrow> bool" where
  "is_notice (SendMessage to DownloadFailedNotice) = True"
| "is_notice (SendMessage to TooLargeNotice) = True"
| "is_notice ev = False"

text \<open>
  \<open>w'\<close> comes from \<open>w\<close> by events none of which is such a notice, with the database
  and its file untouched.
\<close>

definition quiet_ext :: "world \<Rightarrow> world \<Rightarrow> bool" where
  "quiet_ext w w' =
     (db w' = db w \<and> disk w' = disk w \<and>
      (\<exists>evs. trace w' = trace w @ evs \<and> filter is_notice evs = []))"

section \<open>Strings\<close>

lemma string_of_nat_numeral [simp]:
  "string_of_nat (numeral k) =
     (if (numeral k :: nat) < 10 then [''0123456789'' ! numeral k]
      else string_of_nat (numeral k div 10) @ [''0123456789'' ! (numeral k mod 10)])"
  by (rule string_of_nat.simps)

lemma string_of_nat_0 [simp]: "string_of_nat 0 = ''0''"
  by (simp add: string_of_nat.simps)

lemma string_of_nat_1 [simp]: "string_of_nat (Suc 0) = ''1''"
  by (simp add: string_of_nat.simps)



section \<open>Transcription client: the retry loop\<close>





lemma attempts_exhausted:
  assumes "maxR < attempt"
  shows "attempts e req maxR attempt lastError w = (Inl lastError, w)"
  using assms by (subst attempts.simps) simp

text \<open>
  A client error is final after one call as long as its message, body included, contains
  none of the five marks.
\<close>

lemma client_error_single_attempt:
  assumes "attempt \<le> maxR"
    and "fetch_whisper e (trace w) req = Inr r"
    and "\<not> ok r" and "status r < 500" and "status r \<noteq> 429"
    and "text_body r = Inr b"
    and "\<not> isRetryable (''Whisper API error '' @ string_of_nat (status r) @ '': '' @ b)"
  shows "attempts e req maxR attempt lastError w =
         (Inl (Error (''Whisper API error '' @ string_of_nat (status r) @ '': '' @ b)),
          emit (WhisperFetch req) w)"
  using assms
  by (subst attempts.simps) (simp add: try_attempt_def attempt_result_def)

lemma whisper_request_ogg: "whisper_request [] ''audio/ogg'' default_options = ogg_request"
  by (simp add: whisper_request_def default_options_def ogg_request_def trim_def is_space_def
      MIME_EXT_MAP_def truthy_str_def)

lemma default_options_maxRetries: "maxRetries default_options = None"
  by (simp add: default_options_def)





text \<open>
  Claim C5 at an answer with status 400 whose body contains the digits \<open>500\<close>: the
  client treats the failure as retryable, calls the API three times and sleeps 2 and 4
  seconds in between, where the claim has one call.
\<close>

theorem transcribeAudio_400_retried:
  "transcribeAudio (env_status 400 ''file exceeds 25000000 bytes'') [] ''audio/ogg''
     default_options w0 =
     (Inl (Error ''Whisper API error 400: file exceeds 25000000 bytes''),
      w0\<lparr>trace := [WhisperFetch ogg_request, Sleep 2000, WhisperFetch ogg_request, Sleep 4000,
                   WhisperFetch ogg_request]\<rparr>)"
  by (simp add: transcribeAudio_def MAX_FILE_SIZE_def attempts.simps try_attempt_def
      attempt_result_def env_status_def quiet_env_def ok_def isRetryable_def emit_def w0_def
      whisper_request_ogg default_options_maxRetries)

text \<open>
  Claim C10. With a buffer within the limit and \<open>maxRetries\<close> zero or negative, the
  loop body never runs: no call of the API is made, nothing else happens, and the value
  thrown is the initial \<open>null\<close> of \<open>lastError\<close>, not an \<open>Error\<close>.
\<close>

theorem transcribeAudio_no_attempt:
  "length audioBuffer \<le> MAX_FILE_SIZE \<and> maxRetries opts = Some n \<and> n \<le> 0 \<longrightarrow>
     transcribeAudio e audioBuffer mimeType opts w = (Inl JsNull, w)"
  by (simp add: transcribeAudio_def attempts_exhausted)

text \<open>With \<open>maxRetries\<close> 0, even an API that would answer 200 is never called.\<close>

theorem transcribeAudio_no_attempt_witness:
  "transcribeAudio (env_status 200 '''') [] ''audio/ogg''
     \<lparr>maxRetries = Some 0, opt_language = None\<rparr> w0 = (Inl JsNull, w0)"
  using transcribeAudio_no_attempt [of "[]" "\<lparr>maxRetries = Some 0, opt_language = None\<rparr>" 0
      "env_status 200 ''''" "''audio/ogg''" w0]
  by (simp add: MAX_FILE_SIZE_def)

section \<open>Persistence store: every mutation is persisted\<close>

lemma fold_max_ge_start: "(s::nat) \<le> fold max xs s"
  by (induction xs arbitrary: s) (auto intro: order_trans [OF max.cobounded2])

lemma fold_max_ge_elem: "x \<in> set xs \<Longrightarrow> (x::nat) \<le> fold max xs s"
proof (induction xs arbitrary: s)
  case Nil
  then show ?case by simp
next
  case (Cons y ys)
  show ?case
  proof (cases "x = y")
    case True
    have "y \<le> max y s" by simp
    also have "\<dots> \<le> fold max ys (max y s)" by (rule fold_max_ge_start)
    finally show ?thesis using True by simp
  next
    case False
    with Cons show ?thesis by simp
  qed
qed

lemma find_fresh_id:
  assumes "\<forall>x \<in> set rows. id x \<noteq> id r"
  shows "find (\<lambda>x. id x = id r) (rows @ [r]) = Some r"
  using assms by (induction rows) auto


lemma new_id_fresh:
  "x \<in> set rows \<Longrightarrow> id x \<noteq> Suc (fold max (map id rows) s)"
  using fold_max_ge_elem [of "id x" "map id rows" s] by auto

lemma new_row_fresh: "\<forall>x \<in> set (transcriptions (db w)). id x \<noteq> id (new_row e a w)"
  by (auto simp: new_row_def dest: new_id_fresh)

lemma saveTranscription_eq:
  "saveTranscription e a w =
     (id (new_row e a w),
      \<lparr>trace = trace w @ [WriteFile ((db w)\<lparr>transcriptions := transcriptions (db w) @ [new_row e a w], seq := id (new_row e a w)\<rparr>),
                          Emit (new_row e a w)],
       db = (db w)\<lparr>transcriptions := transcriptions (db w) @ [new_row e a w], seq := id (new_row e a w)\<rparr>,
       disk = Some ((db w)\<lparr>transcriptions := transcriptions (db w) @ [new_row e a w], seq := id (new_row e a w)\<rparr>)\<rparr>)"
proof -
  have "find (\<lambda>x. id x = id (new_row e a w)) (transcriptions (db w) @ [new_row e a w]) = Some (new_row e a w)"
    by (rule find_fresh_id) (rule new_row_fresh)
  then show ?thesis
    by (simp add: saveTranscription_def Let_def persist_def emit_def getTranscription_def)
qed



section \<open>Settings route: the allow-list\<close>










section \<open>Audio handling: download, size guard, save\<close>

lemma quiet_ext_refl: "quiet_ext w w"
  by (simp add: quiet_ext_def)

lemma quiet_ext_trans: "quiet_ext w w1 \<Longrightarrow> quiet_ext w1 w2 \<Longrightarrow> quiet_ext w w2"
  by (auto simp: quiet_ext_def)

lemma quiet_ext_emit: "\<not> is_notice ev \<Longrightarrow> quiet_ext w (emit ev w)"
  by (simp add: quiet_ext_def emit_def)

lemma attempts_quiet: "attempts e req maxR attempt lastError w = (res, w') \<Longrightarrow> quiet_ext w w'"
proof (induction e req maxR attempt lastError w rule: attempts.induct)
  case (1 e req maxR attempt lastError w)
  show ?case
  proof (cases "attempt \<le> maxR")
    case False
    with "1.prems" show ?thesis
      by (simp add: attempts.simps [of e req maxR attempt] quiet_ext_refl)
  next
    case le: True
    let ?w1 = "emit (WhisperFetch req) w"
    have q1: "quiet_ext w ?w1" by (simp add: quiet_ext_emit)
    show ?thesis
    proof (cases "attempt_result (fetch_whisper e (trace w) req)")
      case (Inr t)
      with le "1.prems" have "w' = ?w1"
        by (simp add: attempts.simps [of e req maxR attempt] try_attempt_def)
      with q1 show ?thesis by simp
    next
      case (Inl m)
      show ?thesis
      proof (cases "attempt < maxR \<and> isRetryable m")
        case True
        let ?w2 = "emit (Sleep (2 ^ nat attempt * 1000)) ?w1"
        from True Inl le "1.prems"
        have "attempts e req maxR (attempt + 1) (Error m) ?w2 = (res, w')"
          by (simp add: attempts.simps [of e req maxR attempt] try_attempt_def)
        with "1.IH" [of "Inl m" ?w1 m] le True Inl have "quiet_ext ?w2 w'"
          by (simp add: try_attempt_def)
        moreover have "quiet_ext ?w1 ?w2" by (simp add: quiet_ext_emit)
        ultimately show ?thesis using q1 by (blast intro: quiet_ext_trans)
      next
        case False
        with Inl le "1.prems" have "w' = ?w1"
          by (auto simp: attempts.simps [of e req maxR attempt] try_attempt_def)
        with q1 show ?thesis by simp
      qed
    qed
  qed
qed

lemma transcribeAudio_quiet: "transcribeAudio e buf mt opts w = (res, w') \<Longrightarrow> quiet_ext w w'"
  by (auto simp: transcribeAudio_def quiet_ext_refl attempts_quiet split: if_splits)

lemma forward_all_quiet:
  "\<not> is_notice (SendMessage ''x'' txt) \<Longrightarrow> quiet_ext w (forward_all e numbers phone params txt w)"
proof (induction numbers arbitrary: w)
  case Nil
  then show ?case by (simp add: quiet_ext_refl)
next
  case (Cons number numbers)
  have nn: "\<And>to. \<not> is_notice (SendMessage to txt)"
    using Cons.prems by (cases "txt") simp_all
  show ?case
  proof (cases "number \<noteq> phone")
    case False
    with Cons show ?thesis by simp
  next
    case True
    let ?w1 = "emit (SendTemplate number ''voice_transcription_forward'' params) w"
    have q1: "quiet_ext w ?w1" by (simp add: quiet_ext_emit)
    show ?thesis
    proof (cases "sendWhatsAppTemplate e (trace w) number ''voice_transcription_forward'' params")
      case (Inr u)
      with True have "forward_all e (number # numbers) phone params txt w
          = forward_all e numbers phone params txt ?w1"
        by (simp add: send_template_def)
      with Cons.IH [OF Cons.prems, of ?w1] q1 show ?thesis
        by (auto intro: quiet_ext_trans)
    next
      case (Inl m)
      let ?w2 = "emit (SendMessage number txt) ?w1"
      from Inl True have "forward_all e (number # numbers) phone params txt w
          = forward_all e numbers phone params txt ?w2"
        by (simp add: send_template_def send_message_def)
      moreover have "quiet_ext ?w1 ?w2" using nn by (simp add: quiet_ext_emit)
      ultimately show ?thesis using Cons.IH [OF Cons.prems, of ?w2] q1
        by (auto intro: quiet_ext_trans)
    qed
  qed
qed

lemma forward_step_quiet: "quiet_ext w (forward_step e t phone name w)"
  by (simp add: forward_step_def Let_def quiet_ext_refl forward_all_quiet)

lemma saved_db:
  "db (snd (saveTranscription e args w)) =
     (db w)\<lparr>transcriptions := transcriptions (db w) @ [new_row e args w],
            seq := id (new_row e args w)\<rparr>"
  by (simp add: saveTranscription_eq)

lemma saved_trace:
  "trace (snd (saveTranscription e args w)) =
     trace w @ [WriteFile (db (snd (saveTranscription e args w))), Emit (new_row e args w)]"
  by (simp add: saveTranscription_eq)

lemma after_download_saved:
  assumes small: "\<not> length buf > 25 * 1024 * 1024"
    and tr: "transcribeAudio e buf (mime_of a) (transcribe_options w1) w1 = (Inr t, w2)"
  shows "\<exists>evs. trace (snd (after_download e a buf phone name ts w1)) = trace w1 @ evs \<and>
           filter is_notice evs = [] \<and>
           transcriptions (db (snd (after_download e a buf phone name ts w1))) =
             transcriptions (db w1) @ [new_row e (whatsapp_record a t phone name ts) w2]"
proof -
  let ?args = "whatsapp_record a t phone name ts"
  let ?ws = "snd (saveTranscription e ?args w2)"
  let ?reply = "SendMessage phone (ReplyText (t_text t) (t_language t)
                  (Math_round (case t_duration t of None \<Rightarrow> 0 | Some d \<Rightarrow> d)))"
  let ?res = "snd (after_download e a buf phone name ts w1)"
  from tr have q12: "quiet_ext w1 w2" by (rule transcribeAudio_quiet)
  have qr: "quiet_ext ?ws (emit ?reply ?ws)" by (simp add: quiet_ext_emit)
  have "quiet_ext ?ws ?res"
  proof (cases "getSetting ''auto_reply'' ?ws = Some ''true''")
    case False
    with small tr have "?res = forward_step e t phone name ?ws"
      by (simp add: after_download_def)
    then show ?thesis by (simp add: forward_step_quiet)
  next
    case True
    show ?thesis
    proof (cases "sendWhatsAppMessage e (trace ?ws) phone (ReplyText (t_text t) (t_language t)
                  (Math_round (case t_duration t of None \<Rightarrow> 0 | Some d \<Rightarrow> d)))")
      case (Inl m)
      with True small tr have "?res = emit ?reply ?ws"
        by (simp add: after_download_def send_message_def)
      with qr show ?thesis by simp
    next
      case (Inr u)
      with True small tr have "?res = forward_step e t phone name (emit ?reply ?ws)"
        by (simp add: after_download_def send_message_def)
      with qr forward_step_quiet [of "emit ?reply ?ws" e t phone name] show ?thesis
        by (auto intro: quiet_ext_trans)
    qed
  qed
  then obtain evs3 where e3: "trace ?res = trace ?ws @ evs3" "filter is_notice evs3 = []"
    and d3: "db ?res = db ?ws"
    by (auto simp: quiet_ext_def)
  from q12 obtain evs1 where e1: "trace w2 = trace w1 @ evs1" "filter is_notice evs1 = []"
    and d1: "db w2 = db w1"
    by (auto simp: quiet_ext_def)
  have "trace ?res = trace w1 @ (evs1 @ [WriteFile (db ?ws), Emit (new_row e ?args w2)] @ evs3)"
    using e1 e3 by (simp add: saved_trace)
  moreover have "filter is_notice (evs1 @ [WriteFile (db ?ws), Emit (new_row e ?args w2)] @ evs3) = []"
    using e1 e3 by simp
  moreover have "transcriptions (db ?res) = transcriptions (db w1) @ [new_row e ?args w2]"
    using d3 d1 by (simp add: saved_db)
  ultimately show ?thesis by blast
qed

lemma download_step_cases:
  assumes "download_step e i phone w = (Some buf, w1)"
  shows "db w1 = db w \<and> disk w1 = disk w \<and>
         (trace w1 = trace w @ [Download i] \<or>
          trace w1 = trace w @ [Download i, Sleep 2000, Download i])"
  using assms
  by (auto simp: download_step_def Let_def emit_def send_message_def split: sum.splits)

text \<open>
  Claim C3, as the code has it. When the first download of an audio item fails, the
  handler waits 2000 ms and downloads once more. If that fails too, it sends the
  download-failed notice to the sender, exactly once, and returns normally whatever the
  send does; nothing else happens, so no record is saved. If the second download returns
  a buffer of at most 25 MiB and the transcription of it succeeds, exactly one record is
  added to the table and no notice is sent.
\<close>

theorem download_retried_once:
  "m_audio msg = Some a \<and> downloadWhatsAppMedia e (trace w) (audio_id a) = Inl m1 \<longrightarrow>
     (downloadWhatsAppMedia e (trace w @ [Download (audio_id a), Sleep 2000]) (audio_id a) = Inl m2 \<longrightarrow>
        handleAudioMessage e msg phone name ts w =
          (Inr (),
           w\<lparr>trace := trace w @ [Download (audio_id a), Sleep 2000, Download (audio_id a),
                                 SendMessage phone DownloadFailedNotice]\<rparr>)) \<and>
     (downloadWhatsAppMedia e (trace w @ [Download (audio_id a), Sleep 2000]) (audio_id a) = Inr buf \<and>
      length buf \<le> 25 * 1024 * 1024 \<and>
      w1 = w\<lparr>trace := trace w @ [Download (audio_id a), Sleep 2000, Download (audio_id a)]\<rparr> \<and>
      transcribeAudio e buf (mime_of a) (transcribe_options w1) w1 = (Inr t, w2) \<longrightarrow>
        (\<exists>evs. trace (snd (handleAudioMessage e msg phone name ts w)) = trace w1 @ evs \<and>
               filter is_notice evs = [] \<and>
               transcriptions (db (snd (handleAudioMessage e msg phone name ts w))) =
                 transcriptions (db w) @ [new_row e (whatsapp_record a t phone name ts) w2]))"
proof (intro impI conjI)
  assume a: "m_audio msg = Some a \<and> downloadWhatsAppMedia e (trace w) (audio_id a) = Inl m1"
    and b: "downloadWhatsAppMedia e (trace w @ [Download (audio_id a), Sleep 2000]) (audio_id a) = Inl m2"
  then show "handleAudioMessage e msg phone name ts w =
          (Inr (),
           w\<lparr>trace := trace w @ [Download (audio_id a), Sleep 2000, Download (audio_id a),
                                 SendMessage phone DownloadFailedNotice]\<rparr>)"
    by (simp add: handleAudioMessage_def download_step_def Let_def emit_def send_message_def)
next
  assume a: "m_audio msg = Some a \<and> downloadWhatsAppMedia e (trace w) (audio_id a) = Inl m1"
    and b: "downloadWhatsAppMedia e (trace w @ [Download (audio_id a), Sleep 2000]) (audio_id a) = Inr buf \<and>
      length buf \<le> 25 * 1024 * 1024 \<and>
      w1 = w\<lparr>trace := trace w @ [Download (audio_id a), Sleep 2000, Download (audio_id a)]\<rparr> \<and>
      transcribeAudio e buf (mime_of a) (transcribe_options w1) w1 = (Inr t, w2)"
  from a b have h: "handleAudioMessage e msg phone name ts w = after_download e a buf phone name ts w1"
    by (simp add: handleAudioMessage_def download_step_def Let_def emit_def)
  from b have small: "\<not> length buf > 25 * 1024 * 1024" by simp
  from b have tr: "transcribeAudio e buf (mime_of a) (transcribe_options w1) w1 = (Inr t, w2)"
    by blast
  from b have "db w1 = db w" by simp
  with after_download_saved [OF small tr, of phone name ts]
  show "\<exists>evs. trace (snd (handleAudioMessage e msg phone name ts w)) = trace w1 @ evs \<and>
               filter is_notice evs = [] \<and>
               transcriptions (db (snd (handleAudioMessage e msg phone name ts w))) =
                 transcriptions (db w) @ [new_row e (whatsapp_record a t phone name ts) w2]"
    by (simp only: h)
qed

text \<open>
  Claim C4. When the download step (first try or retry) gives a buffer of more than
  25 MiB, the handler sends the too-large notice to the sender and returns normally,
  whatever the send does. Nothing but downloads, the wait and that notice happens: the
  transcription API is not called and the database and its file are unchanged. The
  transcription client has the same limit of its own and would throw before any call.
\<close>

theorem oversized_audio_rejected:
  "m_audio msg = Some a \<and> download_step e (audio_id a) phone w = (Some buf, w1) \<and>
   length buf > 25 * 1024 * 1024 \<longrightarrow>
     handleAudioMessage e msg phone name ts w =
       (Inr (), w1\<lparr>trace := trace w1 @ [SendMessage phone TooLargeNotice]\<rparr>) \<and>
     db w1 = db w \<and> disk w1 = disk w \<and>
     (trace w1 = trace w @ [Download (audio_id a)] \<or>
      trace w1 = trace w @ [Download (audio_id a), Sleep 2000, Download (audio_id a)]) \<and>
     transcribeAudio e buf mt opts w1 = (Inl (Error (size_error (length buf))), w1)"
proof (intro impI)
  assume a: "m_audio msg = Some a \<and> download_step e (audio_id a) phone w = (Some buf, w1) \<and>
   length buf > 25 * 1024 * 1024"
  then have "handleAudioMessage e msg phone name ts w =
       (Inr (), w1\<lparr>trace := trace w1 @ [SendMessage phone TooLargeNotice]\<rparr>)"
    by (simp add: handleAudioMessage_def after_download_def send_message_def emit_def)
  moreover from a have "transcribeAudio e buf mt opts w1 = (Inl (Error (size_error (length buf))), w1)"
    by (simp add: transcribeAudio_def MAX_FILE_SIZE_def)
  moreover note download_step_cases [of e "audio_id a" phone w buf w1]
  ultimately show "handleAudioMessage e msg phone name ts w =
       (Inr (), w1\<lparr>trace := trace w1 @ [SendMessage phone TooLargeNotice]\<rparr>) \<and>
     db w1 = db w \<and> disk w1 = disk w \<and>
     (trace w1 = trace w @ [Download (audio_id a)] \<or>
      trace w1 = trace w @ [Download (audio_id a), Sleep 2000, Download (audio_id a)]) \<and>
     transcribeAudio e buf mt opts w1 = (Inl (Error (size_error (length buf))), w1)"
    using a by blast
qed


lemmas handler_defs =
  handleAudioMessage_def download_step_def after_download_def send_message_def emit_def
  transcribeAudio_def MAX_FILE_SIZE_def attempts.simps try_attempt_def attempt_result_def ok_def
  isRetryable_def mime_of_def transcribe_options_def getSetting_def forward_step_def
  truthy_str_def

lemmas input_defs =
  w0_def quiet_env_def env_status_def env_transcribed_def flaky_download_def no_download_def
  big_download_def voice_note_def hello_json_def

lemma whisper_request_plain:
  "whisper_request buf ''audio/ogg'' \<lparr>maxRetries = None, opt_language = None\<rparr> =
     ogg_request\<lparr>form_file := buf\<rparr>"
  by (simp add: whisper_request_def ogg_request_def trim_def is_space_def
      MIME_EXT_MAP_def truthy_str_def)

lemma ogg_request_empty [simp]: "ogg_request\<lparr>form_file := []\<rparr> = ogg_request"
  by (simp add: ogg_request_def)

text \<open>
  Claim C3 as stated fails when the retry succeeds but the transcription does not: the
  first download fails, the second returns the audio, the API answers 400, and the
  handler throws with no record saved.
\<close>

theorem retry_succeeds_no_record:
  "handleAudioMessage (flaky_download [] (env_status 400 ''bad request'')) (voice_note None)
     ''40700000001'' ''Ana'' 1700000000000 w0 =
   (Inl (Error ''Whisper API error 400: bad request''),
    w0\<lparr>trace := [Download ''media-1'', Sleep 2000, Download ''media-1'',
                 WhisperFetch ogg_request]\<rparr>)"
  by (simp add: handler_defs input_defs whisper_request_plain)

lemma w0_rows: "transcriptions (db w0) = []"
  by (simp add: w0_def)

text \<open>Both outcomes of the retry on the initial store: every download fails, and only the first
  one does.\<close>

theorem download_retried_once_witness:
  "handleAudioMessage (no_download quiet_env) (voice_note None)
     ''40700000001'' ''Ana'' 1700000000000 w0 =
     (Inr (), w0\<lparr>trace := [Download ''media-1'', Sleep 2000, Download ''media-1'',
                   SendMessage ''40700000001'' DownloadFailedNotice]\<rparr>) \<and>
   transcriptions (db (snd (handleAudioMessage (flaky_download [] (env_transcribed hello_json))
     (voice_note None) ''40700000001'' ''Ana'' 1700000000000 w0))) = [hello_row None]"
proof -
  let ?a = "the_audio None"
  let ?e1 = "no_download quiet_env"
  let ?e2 = "flaky_download [] (env_transcribed hello_json)"
  let ?w1 = "w0\<lparr>trace := trace w0 @ [Download (audio_id ?a), Sleep 2000, Download (audio_id ?a)]\<rparr>"
  let ?w2 = "w0\<lparr>trace := [Download ''media-1'', Sleep 2000, Download ''media-1'',
                         WhisperFetch ogg_request]\<rparr>"
  have a1: "m_audio (voice_note None) = Some ?a \<and>
      downloadWhatsAppMedia ?e1 (trace w0) (audio_id ?a) = Inl ''Failed to get media URL: 404''"
    by (simp add: input_defs the_audio_def)
  have a2: "downloadWhatsAppMedia ?e1 (trace w0 @ [Download (audio_id ?a), Sleep 2000])
      (audio_id ?a) = Inl ''Failed to get media URL: 404''"
    by (simp add: input_defs)
  have b1: "m_audio (voice_note None) = Some ?a \<and>
      downloadWhatsAppMedia ?e2 (trace w0) (audio_id ?a) = Inl ''Failed to get media URL: 500''"
    by (simp add: input_defs the_audio_def)
  have b2: "downloadWhatsAppMedia ?e2 (trace w0 @ [Download (audio_id ?a), Sleep 2000])
      (audio_id ?a) = Inr [] \<and>
      length ([] :: buffer) \<le> 25 * 1024 * 1024 \<and> ?w1 = ?w1 \<and>
      transcribeAudio ?e2 [] (mime_of ?a) (transcribe_options ?w1) ?w1 = (Inr hello_result, ?w2)"
    by (simp add: handler_defs input_defs the_audio_def whisper_request_plain hello_result_def
        or_num_def truthy_num_def)
  note A = download_retried_once [where e = ?e1 and w = w0 and phone = "''40700000001''"
      and name = "''Ana''" and ts = 1700000000000, THEN mp, OF a1, THEN conjunct1, THEN mp, OF a2]
  note B = download_retried_once [where e = ?e2 and w = w0 and phone = "''40700000001''"
      and name = "''Ana''" and ts = 1700000000000, THEN mp, OF b1, THEN conjunct2, THEN mp, OF b2]
  have r: "new_row ?e2 (whatsapp_record ?a hello_result ''40700000001'' ''Ana'' 1700000000000) ?w2
      = hello_row None"
    by (simp add: new_row_def whatsapp_record_def hello_result_def hello_row_def the_audio_def
        or_num_def truthy_num_def input_defs)
  from B have "transcriptions (db (snd (handleAudioMessage ?e2 (voice_note None)
      ''40700000001'' ''Ana'' 1700000000000 w0))) = [hello_row None]"
    by (auto simp: r w0_rows)
  with A show ?thesis by (simp add: the_audio_def w0_def)
qed

lemma download_step_big:
  "download_step (big_download quiet_env) ''media-1'' ''40700000001'' w0 =
     (Some (replicate (25 * 1024 * 1024 + 1) 0), w0\<lparr>trace := [Download ''media-1'']\<rparr>)"
  by (simp add: download_step_def big_download_def emit_def w0_def)

text \<open>A download of 25 MiB and one byte.\<close>

theorem oversized_audio_rejected_witness:
  "handleAudioMessage (big_download quiet_env) (voice_note None)
     ''40700000001'' ''Ana'' 1700000000000 w0 =
     (Inr (), w0\<lparr>trace := [Download ''media-1'', SendMessage ''40700000001'' TooLargeNotice]\<rparr>)"
proof -
  let ?a = "the_audio None"
  let ?buf = "replicate (25 * 1024 * 1024 + 1) 0 :: buffer"
  have h: "m_audio (voice_note None) = Some ?a \<and>
      download_step (big_download quiet_env) (audio_id ?a) ''40700000001'' w0 =
        (Some ?buf, w0\<lparr>trace := [Download ''media-1'']\<rparr>) \<and>
      length ?buf > 25 * 1024 * 1024"
    by (simp add: download_step_big the_audio_def voice_note_def)
  from oversized_audio_rejected [where name = "''Ana''" and ts = 1700000000000
      and mt = "''audio/ogg''" and opts = default_options, THEN mp, OF h]
  show ?thesis by (simp add: w0_def)
qed





section \<open>The queue: failures stay inside the loop\<close>

lemma attempts_not_null:
  "attempt \<le> maxR \<or> lastError \<noteq> JsNull \<Longrightarrow>
     fst (attempts e req maxR attempt lastError w) \<noteq> Inl JsNull"
proof (induction e req maxR attempt lastError w rule: attempts.induct)
  case (1 e req maxR attempt lastError w)
  show ?case
  proof (cases "attempt \<le> maxR")
    case False
    with "1.prems" show ?thesis
      by (simp add: attempts.simps [of e req maxR attempt])
  next
    case le: True
    show ?thesis
    proof (cases "attempt_result (fetch_whisper e (trace w) req)")
      case (Inr t)
      with le show ?thesis
        by (simp add: attempts.simps [of e req maxR attempt] try_attempt_def)
    next
      case (Inl m)
      show ?thesis
      proof (cases "attempt < maxR \<and> isRetryable m")
        case True
        with "1.IH" [of "Inl m" "emit (WhisperFetch req) w" m] le Inl
        have "fst (attempts e req maxR (attempt + 1) (Error m)
                (emit (Sleep (2 ^ nat attempt * 1000)) (emit (WhisperFetch req) w))) \<noteq> Inl JsNull"
          by (simp add: try_attempt_def)
        with True le Inl show ?thesis
          by (simp add: attempts.simps [of e req maxR attempt] try_attempt_def)
      next
        case False
        with le Inl show ?thesis
          by (auto simp: attempts.simps [of e req maxR attempt] try_attempt_def)
      qed
    qed
  qed
qed

lemma transcribeAudio_not_null:
  "maxRetries opts = None \<Longrightarrow> fst (transcribeAudio e buf mt opts w) \<noteq> Inl JsNull"
  by (simp add: transcribeAudio_def attempts_not_null)

lemma after_download_not_null: "fst (after_download e a buf phone name ts w) \<noteq> Inl JsNull"
proof -
  have "maxRetries (transcribe_options w) = None"
    by (simp add: transcribe_options_def Let_def)
  from transcribeAudio_not_null [OF this, of e buf "mime_of a" w]
  show ?thesis
    by (auto simp: after_download_def Let_def split: prod.splits sum.splits)
qed

lemma handleAudioMessage_not_null: "fst (handleAudioMessage e msg phone name ts w) \<noteq> Inl JsNull"
  by (auto simp: handleAudioMessage_def after_download_not_null split: option.splits prod.splits)

lemma handleTextMessage_not_null: "fst (handleTextMessage e msg phone w) \<noteq> Inl JsNull"
  by (auto simp: handleTextMessage_def Let_def split: option.splits prod.splits sum.splits)

lemma dispatch_not_null: "fst (dispatch e it ts w) \<noteq> Inl JsNull"
  by (simp add: dispatch_def handleAudioMessage_not_null handleTextMessage_not_null)

lemma process_item_continues: "fst (process_item e it ts w) = None"
  using dispatch_not_null [of e it ts w]
  by (auto simp: process_item_def split: prod.splits sum.splits thrown.splits)

section \<open>The queue: order and single flight\<close>

lemma queue_inv_init: "queue_inv (init_server w)"
  by (simp add: queue_inv_def init_server_def)

lemma post_webhook_inv:
  assumes "queue_inv s"
  shows "queue_inv (post_webhook e msg cn s) \<and>
         history (post_webhook e msg cn s) = history s @ [new_item msg cn]"
  using assms
  by (auto simp: queue_inv_def history_def post_webhook_def processQueue_def loop_test_def
      new_item_def)

lemma settle_inv:
  assumes "queue_inv s"
  shows "queue_inv (settle e i s) \<and> history (settle e i s) = history s"
proof (cases "i < length (in_flight s)")
  case False
  with assms show ?thesis by (simp add: settle_def)
next
  case True
  with assms have i: "i = 0" and p: "processing s" by (auto simp: queue_inv_def)
  from True i obtain it ts where f: "in_flight s = [(it, ts)]"
    using assms by (cases "in_flight s") (auto simp: queue_inv_def)
  obtain w1 where pi: "process_item e it ts (sys s) = (None, w1)"
    using process_item_continues [of e it ts "sys s"] by (cases "process_item e it ts (sys s)") auto
  show ?thesis
    using i f p pi
    by (cases "messageQueue s")
       (simp_all add: settle_def loop_test_def queue_inv_def history_def)
qed

lemma do_step_inv:
  assumes "queue_inv s"
  shows "queue_inv (do_step e s st) \<and> history (do_step e s st) = history s @ enqueued [st]"
proof (cases st)
  case (Arrive msg cn)
  with post_webhook_inv [OF assms, of e msg cn] show ?thesis by simp
next
  case (Settle i)
  with settle_inv [OF assms, of e i] show ?thesis by simp
qed

lemma enqueued_append: "enqueued (xs @ ys) = enqueued xs @ enqueued ys"
  by (induction xs rule: enqueued.induct) simp_all

lemma run_inv:
  "queue_inv s \<Longrightarrow>
     queue_inv (run e steps s) \<and> history (run e steps s) = history s @ enqueued steps"
proof (induction steps rule: rev_induct)
  case Nil
  then show ?case by (simp add: run_def)
next
  case (snoc st steps)
  then have "queue_inv (run e steps s)"
    and h: "history (run e steps s) = history s @ enqueued steps"
    by simp_all
  from do_step_inv [OF this(1), of e st] h show ?case
    by (simp add: run_def enqueued_append)
qed

text \<open>
  Claim C1. After any interleaving of webhook requests and ends of handlers, starting
  from an idle server: at most one item is in flight; the items done, then the one in
  flight, then the ones waiting are exactly the items enqueued, in the order of their
  requests, so items are started and finished in enqueue order; while the worker is
  draining, exactly one item is in flight and a call of \<open>processQueue\<close> changes
  nothing; and whenever the worker is not draining, the queue is empty and every item
  enqueued so far is done, so an item that arrives during processing is taken by the
  running loop before it exits.
\<close>

theorem queue_fifo_single_flight:
  "length (in_flight (run e steps (init_server w))) \<le> 1 \<and>
   completed (run e steps (init_server w)) @ map fst (in_flight (run e steps (init_server w))) @
     messageQueue (run e steps (init_server w)) = enqueued steps \<and>
   (processing (run e steps (init_server w)) \<longrightarrow>
      length (in_flight (run e steps (init_server w))) = 1 \<and>
      processQueue e (run e steps (init_server w)) = run e steps (init_server w)) \<and>
   (\<not> processing (run e steps (init_server w)) \<longrightarrow>
      in_flight (run e steps (init_server w)) = [] \<and>
      messageQueue (run e steps (init_server w)) = [] \<and>
      completed (run e steps (init_server w)) = enqueued steps)"
proof -
  let ?s = "run e steps (init_server w)"
  from run_inv [OF queue_inv_init, of e steps w]
  have i: "queue_inv ?s" and h: "history ?s = enqueued steps"
    by (simp_all add: history_def init_server_def)
  from i h show ?thesis
    by (cases "in_flight ?s") (auto simp: queue_inv_def history_def processQueue_def)
qed

lemma sticker_run_busy:
  "run quiet_env [Arrive sticker None] (init_server w0) =
     \<lparr>messageQueue = [], processing = True, in_flight = [(sticker_item, 1700000000000)],
      completed = [], sys = w0\<rparr>"
  by (simp add: run_def post_webhook_def processQueue_def loop_test_def init_server_def
      new_item_def sticker_item_def sticker_def quiet_env_def w0_def)

lemma sticker_run_idle:
  "run quiet_env [Arrive sticker None, Settle 0] (init_server w0) =
     \<lparr>messageQueue = [], processing = False, in_flight = [],
      completed = [sticker_item], sys = w0\<rparr>"
proof -
  have "process_item quiet_env sticker_item 1700000000000 w0 = (None, w0)"
    by (simp add: process_item_def dispatch_def sticker_item_def sticker_def)
  then show ?thesis
    using sticker_run_busy
    by (simp add: run_def settle_def loop_test_def)
qed

text \<open>One request: the worker is draining until its handler ends, and idle with an empty queue
  afterwards.\<close>

theorem queue_fifo_single_flight_witness:
  "processQueue quiet_env (run quiet_env [Arrive sticker None] (init_server w0)) =
     run quiet_env [Arrive sticker None] (init_server w0) \<and>
   length (in_flight (run quiet_env [Arrive sticker None] (init_server w0))) = 1 \<and>
   messageQueue (run quiet_env [Arrive sticker None, Settle 0] (init_server w0)) = [] \<and>
   completed (run quiet_env [Arrive sticker None, Settle 0] (init_server w0)) = [sticker_item]"
proof -
  have p1: "processing (run quiet_env [Arrive sticker None] (init_server w0))"
    by (simp add: sticker_run_busy)
  have p2: "\<not> processing (run quiet_env [Arrive sticker None, Settle 0] (init_server w0))"
    by (simp add: sticker_run_idle)
  have e: "enqueued [Arrive sticker None, Settle 0] = [sticker_item]"
    by (simp add: new_item_def sticker_item_def sticker_def)
  note A = queue_fifo_single_flight [of quiet_env "[Arrive sticker None]" w0,
      THEN conjunct2, THEN conjunct2, THEN conjunct1, THEN mp, OF p1]
  note B = queue_fifo_single_flight [of quiet_env "[Arrive sticker None, Settle 0]" w0,
      THEN conjunct2, THEN conjunct2, THEN conjunct2, THEN mp, OF p2]
  from A B e show ?thesis by simp
qed

section \<open>The queue: isolation of failures\<close>









end
